theory Spec2Isabelle
  imports Main "HOL-Library.Multiset"
begin

section \<open>The document\<close>

text \<open>
  The script reads three things of an element: its \<open>id\<close>, its \<open>data-element-id\<close>
  attribute and its class list. An element is modelled with these and its child elements;
  text nodes carry none of them and are left out. The document is the forest of the
  elements below the document node, in tree order.
\<close>

datatype element =
  Element (elem_id: "string option") (data_element_id: "string option")
          (classList: "string list") (children: "element list")

type_synonym document = "element list"

text \<open>
  A reference to an element of the live document is its position: the child indices on the
  way down from the document node.
\<close>

type_synonym handle = "nat list"

fun shift :: "handle \<Rightarrow> handle" where
  "shift [] = []"
| "shift (k # p) = Suc k # p"

text \<open>The first element in tree order that matches, as \<open>querySelector\<close> and \<open>getElementById\<close> return it.\<close>

fun querySelectorIn :: "(element \<Rightarrow> bool) \<Rightarrow> element list \<Rightarrow> handle option" where
  "querySelectorIn P [] = None"
| "querySelectorIn P (Element i m c ch # es) =
     (if P (Element i m c ch) then Some [0]
      else case querySelectorIn P ch of
             Some p \<Rightarrow> Some (0 # p)
           | None \<Rightarrow> map_option shift (querySelectorIn P es))"

fun element_at :: "handle \<Rightarrow> element list \<Rightarrow> element option" where
  "element_at [] es = None"
| "element_at p [] = None"
| "element_at [0] (e # es) = Some e"
| "element_at (0 # p) (Element i m c ch # es) = element_at p ch"
| "element_at (Suc k # p) (e # es) = element_at (k # p) es"

text \<open>\<open>el.remove()\<close>: the element and its subtree leave the document.\<close>

fun remove_at :: "handle \<Rightarrow> element list \<Rightarrow> element list" where
  "remove_at [] es = es"
| "remove_at p [] = []"
| "remove_at [0] (e # es) = es"
| "remove_at (0 # p) (Element i m c ch # es) = Element i m c (remove_at p ch) # es"
| "remove_at (Suc k # p) (e # es) = e # remove_at (k # p) es"

text \<open>\<open>el.prepend(x)\<close>: \<open>x\<close> becomes the first child of the element.\<close>

fun prepend_at :: "handle \<Rightarrow> element \<Rightarrow> element list \<Rightarrow> element list" where
  "prepend_at [] x es = es"
| "prepend_at p x [] = []"
| "prepend_at [0] x (Element i m c ch # es) = Element i m c (x # ch) # es"
| "prepend_at (0 # p) x (Element i m c ch # es) = Element i m c (prepend_at p x ch) # es"
| "prepend_at (Suc k # p) x (e # es) = e # prepend_at (k # p) x es"

definition getElementById :: "string \<Rightarrow> document \<Rightarrow> handle option" where
  "getElementById i d = querySelectorIn (\<lambda>e. elem_id e = Some i) d"

text \<open>\<open>el.querySelector(sel)\<close> looks at the descendants of \<open>el\<close> only.\<close>

definition querySelectorOf :: "handle \<Rightarrow> (element \<Rightarrow> bool) \<Rightarrow> document \<Rightarrow> handle option" where
  "querySelectorOf h P d =
     (case element_at h d of
        None \<Rightarrow> None
      | Some e \<Rightarrow> map_option (\<lambda>r. h @ r) (querySelectorIn P (children e)))"

fun count_id :: "string \<Rightarrow> element list \<Rightarrow> nat" where
  "count_id i [] = 0"
| "count_id i (Element a m c ch # es) =
     (if a = Some i then 1 else 0) + count_id i ch + count_id i es"

section \<open>The injected control\<close>

definition CONTROL_ID :: string where
  "CONTROL_ID = ''tm-reference-chat-button-container''"

definition ACTIONS_MARKER :: string where
  "ACTIONS_MARKER = ''chat-input-actions''"

definition is_action_bar :: "element \<Rightarrow> bool" where
  "is_action_bar e = (data_element_id e = Some ACTIONS_MARKER)"

text \<open>The selector \<open>.flex.items-center.justify-start\<close>.\<close>

definition is_left_side :: "element \<Rightarrow> bool" where
  "is_left_side e =
     (''flex'' \<in> set (classList e) \<and> ''items-center'' \<in> set (classList e)
      \<and> ''justify-start'' \<in> set (classList e))"

definition svgPath :: element where
  "svgPath = Element None None [] []"

definition svgIcon :: element where
  "svgIcon = Element None None [''w-5'', ''h-5'']
               [Element None None [] [svgPath, svgPath, svgPath]]"

definition referenceChatButton :: element where
  "referenceChatButton =
     Element (Some ''reference-chat-button'') None
       [''focus-visible:outline-blue-600'', ''w-9'', ''h-9'', ''rounded-lg'',
        ''justify-center'', ''items-center'', ''gap-1.5'', ''inline-flex'',
        ''text-slate-900'', ''hover:bg-slate-900/20'', ''active:bg-slate-900/25'',
        ''disabled:text-neutral-400'', ''dark:text-white'', ''dark:hover:bg-white/20'',
        ''dark:active:bg-white/25'', ''dark:disabled:text-neutral-500'']
       [svgIcon]"

definition refButtonContainer :: element where
  "refButtonContainer = Element (Some CONTROL_ID) None [] [referenceChatButton]"

definition count_controls :: "document \<Rightarrow> nat" where
  "count_controls d = count_id CONTROL_ID d"

section \<open>Module state, timers and history hooks\<close>

datatype callback = InitOuter | InitInner | DebounceAdd | DebounceRemoveCheck | NavSettle

datatype history_fn = Original | Wrapped

text \<open>
  The state of the page as far as the script touches it: the document, the module's
  variables, the two \<open>window\<close> properties it sets, the observer's connection, the
  browser's table of pending timers (identifier, delay in ms, callback) and the two
  \<open>history\<close> entry points.
\<close>

record world =
  doc :: document
  buttonAdded :: bool
  observerActive :: bool
  checkInterval :: "nat option"
  attemptCount :: nat
  lastNavTime :: int
  convoRefDebounce :: "nat option"
  convoRefObserver :: bool
  observing :: bool
  timers :: "(nat \<times> nat \<times> callback) list"
  nextTimerId :: nat
  pushState :: history_fn
  replaceState :: history_fn

definition setTimeout :: "callback \<Rightarrow> nat \<Rightarrow> world \<Rightarrow> nat \<times> world" where
  "setTimeout cb delay w =
     (nextTimerId w,
      w\<lparr>timers := timers w @ [(nextTimerId w, delay, cb)], nextTimerId := Suc (nextTimerId w)\<rparr>)"

definition clearTimeout :: "nat option \<Rightarrow> world \<Rightarrow> world" where
  "clearTimeout t w =
     (case t of None \<Rightarrow> w
      | Some k \<Rightarrow> w\<lparr>timers := filter (\<lambda>e. fst e \<noteq> k) (timers w)\<rparr>)"

definition findChatActionBar :: "document \<Rightarrow> handle option" where
  "findChatActionBar d = querySelectorIn is_action_bar d"

text \<open>
  \<open>addReferenceButton\<close>. Nothing in its \<open>try\<close> block raises on a document: \<open>remove\<close>,
  \<open>querySelector\<close> with these constant selectors, \<open>createElement\<close> and \<open>prepend\<close> of a
  fresh element all succeed, so the \<open>catch\<close> branch has no input that reaches it.
\<close>

definition addReferenceButton :: "world \<Rightarrow> world \<times> bool" where
  "addReferenceButton w =
     (let d1 = (case getElementById CONTROL_ID (doc w) of
                  Some existingButton \<Rightarrow> remove_at existingButton (doc w)
                | None \<Rightarrow> doc w)
      in case findChatActionBar d1 of
           None \<Rightarrow> (w\<lparr>doc := d1\<rparr>, False)
         | Some actionBar \<Rightarrow>
             (case querySelectorOf actionBar is_left_side d1 of
                None \<Rightarrow> (w\<lparr>doc := d1\<rparr>, False)
              | Some leftSide \<Rightarrow>
                  (w\<lparr>doc := prepend_at leftSide refButtonContainer d1, buttonAdded := True\<rparr>,
                   True)))"

definition removeReferenceButton :: "world \<Rightarrow> world" where
  "removeReferenceButton w =
     (case getElementById CONTROL_ID (doc w) of
        Some existingButton \<Rightarrow> w\<lparr>doc := remove_at existingButton (doc w), buttonAdded := False\<rparr>
      | None \<Rightarrow> w)"

text \<open>\<open>handleNavigation\<close>, with the reading of \<open>Date.now()\<close> as an argument.\<close>

definition handleNavigation :: "int \<Rightarrow> world \<Rightarrow> world" where
  "handleNavigation now w =
     (if now - lastNavTime w < 500 then w
      else snd (setTimeout NavSettle 1500 (w\<lparr>lastNavTime := now, buttonAdded := False\<rparr>)))"



text \<open>The module state right after the script has loaded, on document \<open>d\<close>.\<close>

definition loaded :: "document \<Rightarrow> world" where
  "loaded d =
     \<lparr>doc = d, buttonAdded = False, observerActive = False, checkInterval = None,
      attemptCount = 0, lastNavTime = 0, convoRefDebounce = None, convoRefObserver = False,
      observing = False, timers = [(1, 2000, InitOuter)], nextTimerId = 2,
      pushState = Wrapped, replaceState = Wrapped\<rparr>"


text \<open>
  The two structural lookups that \<open>addReferenceButton\<close> makes one after the other: the
  toolbar by its marker, then the left-aligned cluster among the toolbar's descendants.
\<close>

definition locateAnchor :: "document \<Rightarrow> handle option" where
  "locateAnchor d =
     (case findChatActionBar d of
        None \<Rightarrow> None
      | Some actionBar \<Rightarrow> querySelectorOf actionBar is_left_side d)"

text \<open>The document once the first element carrying the control's identifier is removed.\<close>

definition without_existing :: "document \<Rightarrow> document" where
  "without_existing d =
     (case getElementById CONTROL_ID d of
        Some existingButton \<Rightarrow> remove_at existingButton d
      | None \<Rightarrow> d)"

subsection \<open>The mutation observer\<close>

datatype dom_node = ElementNode element | OtherNode

datatype mutation_type = ChildList | Attributes | CharacterData

record mutation_record =
  mtype :: mutation_type
  addedNodes :: "dom_node list"
  removedNodes :: "dom_node list"

definition mentions_action_bar :: "dom_node \<Rightarrow> bool" where
  "mentions_action_bar n =
     (case n of
        OtherNode \<Rightarrow> False
      | ElementNode e \<Rightarrow>
          data_element_id e = Some ACTIONS_MARKER
          \<or> querySelectorIn is_action_bar (children e) \<noteq> None)"

text \<open>The loop over the batch: the pair is (\<open>shouldCheck\<close>, \<open>shouldRemove\<close>).\<close>

fun scan_mutations :: "mutation_record list \<Rightarrow> bool \<times> bool" where
  "scan_mutations [] = (False, False)"
| "scan_mutations (m # ms) =
     (if mtype m \<noteq> ChildList then scan_mutations ms
      else let shouldCheck = list_ex mentions_action_bar (addedNodes m);
               shouldRemove = list_ex mentions_action_bar (removedNodes m)
           in if shouldCheck \<or> shouldRemove then (shouldCheck, shouldRemove)
              else scan_mutations ms)"

definition schedule_debounce :: "callback \<Rightarrow> world \<Rightarrow> world" where
  "schedule_debounce cb w =
     (case setTimeout cb 500 (clearTimeout (convoRefDebounce w) w) of
        (t, w') \<Rightarrow> w'\<lparr>convoRefDebounce := Some t\<rparr>)"

definition observer_callback :: "mutation_record list \<Rightarrow> world \<Rightarrow> world" where
  "observer_callback ms w =
     (case scan_mutations ms of
        (shouldCheck, shouldRemove) \<Rightarrow>
          (let w1 = (if shouldCheck then schedule_debounce DebounceAdd w else w)
           in if shouldRemove then schedule_debounce DebounceRemoveCheck w1 else w1))"

definition setupObserver :: "world \<Rightarrow> world" where
  "setupObserver w =
     (if observerActive w then w
      else w\<lparr>observing := True, observerActive := True, convoRefObserver := True\<rparr>)"

subsection \<open>Timer callbacks, cleanup and the event loop\<close>

definition run_callback :: "callback \<Rightarrow> int \<Rightarrow> world \<Rightarrow> world" where
  "run_callback cb now w =
     (case cb of
        InitOuter \<Rightarrow> snd (setTimeout InitInner 1000 (setupObserver w))
      | InitInner \<Rightarrow>
          (case addReferenceButton w of
             (w', added) \<Rightarrow> if added then w' else handleNavigation now w')
      | DebounceAdd \<Rightarrow> fst (addReferenceButton w)
      | DebounceRemoveCheck \<Rightarrow>
          (if findChatActionBar (doc w) = None then removeReferenceButton w else w)
      | NavSettle \<Rightarrow>
          (if findChatActionBar (doc w) \<noteq> None then fst (addReferenceButton w)
           else removeReferenceButton w))"

text \<open>
  \<open>cleanup\<close>. Timer identifiers are positive, so the test \<open>if (window.convoRefDebounce)\<close>
  holds as soon as a debounce timer was ever set. \<open>clearInterval\<close> and \<open>clearTimeout\<close>
  work on the same table.
\<close>

definition cleanup :: "world \<Rightarrow> world" where
  "cleanup w =
     (let w1 = (if convoRefObserver w then w\<lparr>observing := False, observerActive := False\<rparr>
                else w);
          w2 = (case checkInterval w1 of
                  None \<Rightarrow> w1
                | Some k \<Rightarrow> (clearTimeout (Some k) w1)\<lparr>checkInterval := None\<rparr>);
          w3 = (case convoRefDebounce w2 of
                  None \<Rightarrow> w2
                | Some k \<Rightarrow> if k = 0 then w2 else clearTimeout (Some k) w2)
      in w3\<lparr>pushState := Original, replaceState := Original\<rparr>)"

datatype nav_source = PushStateCall | ReplaceStateCall | PopState | VisibilityChange bool

text \<open>
  What can happen on the page: the host changes the document; the observer is handed a
  batch of records; a pending timer fires; a navigation signal arrives (a call of one of
  the two history entry points, a \<open>popstate\<close> event, a \<open>visibilitychange\<close> event with the
  value of \<open>document.hidden\<close>); the two functions exposed on \<open>window.convoRef\<close> are
  called. Events that run a handler carry the reading of the clock.
\<close>

datatype event =
    HostMutation document
  | ObserverBatch "mutation_record list"
  | TimerFires nat int
  | Navigation nav_source int
  | AddButtonCall
  | CleanupCall

definition fire :: "nat \<Rightarrow> int \<Rightarrow> world \<Rightarrow> world" where
  "fire k now w =
     (case find (\<lambda>e. fst e = k) (timers w) of
        None \<Rightarrow> w
      | Some (_, _, cb) \<Rightarrow>
          run_callback cb now (w\<lparr>timers := filter (\<lambda>e. fst e \<noteq> k) (timers w)\<rparr>))"

definition navigate :: "nav_source \<Rightarrow> int \<Rightarrow> world \<Rightarrow> world" where
  "navigate src now w =
     (case src of
        PushStateCall \<Rightarrow> if pushState w = Wrapped then handleNavigation now w else w
      | ReplaceStateCall \<Rightarrow> if replaceState w = Wrapped then handleNavigation now w else w
      | PopState \<Rightarrow> handleNavigation now w
      | VisibilityChange hidden \<Rightarrow> if hidden then w else handleNavigation now w)"

definition step :: "event \<Rightarrow> world \<Rightarrow> world" where
  "step e w =
     (case e of
        HostMutation d \<Rightarrow> w\<lparr>doc := d\<rparr>
      | ObserverBatch ms \<Rightarrow> if observing w then observer_callback ms w else w
      | TimerFires k now \<Rightarrow> fire k now w
      | Navigation src now \<Rightarrow> navigate src now w
      | AddButtonCall \<Rightarrow> fst (addReferenceButton w)
      | CleanupCall \<Rightarrow> cleanup w)"

text \<open>The states a sequence of events goes through, the first one included.\<close>

fun run :: "world \<Rightarrow> event list \<Rightarrow> world list" where
  "run w [] = [w]"
| "run w (e # es) = w # run (step e w) es"


text \<open>A toolbar as the host renders it, with the given content in its left-aligned cluster.\<close>

definition toolbar :: "element list \<Rightarrow> element" where
  "toolbar cs =
     Element None (Some ''chat-input-actions'') []
       [Element None None [''flex'', ''items-center'', ''justify-start''] cs]"


section \<open>Stored values\<close>

text \<open>
  The values the key-value store hands back, as far as the script looks into them. Numbers
  are the integral ones; strings are sequences of code units. Stored values hold no
  functions.
\<close>

datatype jsval =
    Undefined | Null | Bool bool | Num int | Str string
  | Arr "jsval list" | Obj "(string \<times> jsval) list"

datatype thrown = Error string | DOMException string | TypeError

fun truthy :: "jsval \<Rightarrow> bool" where
  "truthy Undefined = False"
| "truthy Null = False"
| "truthy (Bool b) = b"
| "truthy (Num n) = (n \<noteq> 0)"
| "truthy (Str s) = (s \<noteq> [])"
| "truthy (Arr xs) = True"
| "truthy (Obj kvs) = True"

text \<open>
  Reading one of the data properties the script asks for (\<open>role\<close>, \<open>content\<close>, \<open>type\<close>,
  \<open>text\<close>, \<open>chatTitle\<close>, \<open>id\<close>, \<open>messages\<close>, \<open>updatedAt\<close>, \<open>createdAt\<close>) off a value that
  is neither \<open>undefined\<close> nor \<open>null\<close>: only an object can hold one.
\<close>

fun property :: "jsval \<Rightarrow> string \<Rightarrow> jsval" where
  "property (Obj kvs) name = (case map_of kvs name of Some v \<Rightarrow> v | None \<Rightarrow> Undefined)"
| "property v name = Undefined"

text \<open>The same read off any value: on \<open>undefined\<close> and \<open>null\<close> it raises.\<close>

definition read_prop :: "jsval \<Rightarrow> string \<Rightarrow> thrown + jsval" where
  "read_prop v name = (if v = Undefined \<or> v = Null then Inl TypeError else Inr (property v name))"

fun isArray :: "jsval \<Rightarrow> bool" where
  "isArray (Arr xs) = True"
| "isArray v = False"

fun typeof_object :: "jsval \<Rightarrow> bool" where
  "typeof_object Null = True"
| "typeof_object (Arr xs) = True"
| "typeof_object (Obj kvs) = True"
| "typeof_object v = False"

fun typeof_string :: "jsval \<Rightarrow> bool" where
  "typeof_string (Str s) = True"
| "typeof_string v = False"

fun digits :: "nat \<Rightarrow> string" where
  "digits n =
     (if n < 10 then [char_of (48 + n)]
      else digits (n div 10) @ [char_of (48 + n mod 10)])"

declare digits.simps [simp del]

fun join :: "string \<Rightarrow> string list \<Rightarrow> string" where
  "join sep [] = []"
| "join sep [x] = x"
| "join sep (x # y # ys) = x @ sep @ join sep (y # ys)"

text \<open>The string a value turns into inside \<open>Array.prototype.join\<close> and string concatenation.\<close>

fun toString :: "jsval \<Rightarrow> string" where
  "toString Undefined = ''undefined''"
| "toString Null = ''null''"
| "toString (Bool b) = (if b then ''true'' else ''false'')"
| "toString (Num n) = (if n < 0 then CHR ''-'' # digits (nat (- n)) else digits (nat n))"
| "toString (Str s) = s"
| "toString (Arr xs) =
     join '','' (map (\<lambda>x. if x = Undefined \<or> x = Null then [] else toString x) xs)"
| "toString (Obj kvs) = ''[object Object]''"

definition array_join :: "string \<Rightarrow> jsval list \<Rightarrow> string" where
  "array_join sep xs =
     join sep (map (\<lambda>x. if x = Undefined \<or> x = Null then [] else toString x) xs)"

definition newline :: string where
  "newline = [CHR 0x0A]"

text \<open>White space and line terminators among the code units below 256.\<close>

definition is_space :: "char \<Rightarrow> bool" where
  "is_space c = (c \<in> set [CHR 0x09, CHR 0x0A, CHR 0x0B, CHR 0x0C, CHR 0x0D, CHR 0x20, CHR 0xA0])"

definition trim :: "string \<Rightarrow> string" where
  "trim s = rev (dropWhile is_space (rev (dropWhile is_space s)))"

section \<open>Formatting the selected conversation\<close>

text \<open>The filter of the sequence branch: \<open>part && part.type === 'text' && part.text\<close>.\<close>

definition text_bearing :: "jsval \<Rightarrow> bool" where
  "text_bearing part =
     (truthy part \<and> property part ''type'' = Str ''text'' \<and> truthy (property part ''text''))"

text \<open>\<open>contentText\<close> for a message whose \<open>content\<close> is the given value.\<close>

definition content_text :: "jsval \<Rightarrow> jsval" where
  "content_text content =
     (if truthy content then
        (if typeof_string content then content
         else if isArray content then
           (case content of
              Arr parts \<Rightarrow>
                Str (array_join newline (map (\<lambda>part. property part ''text'') (filter text_bearing parts)))
            | _ \<Rightarrow> Str [])
         else if typeof_object content \<and> truthy (property content ''text'') then property content ''text''
         else Str [])
      else Str [])"

definition role_label :: "jsval \<Rightarrow> string option" where
  "role_label r =
     (if r = Str ''user'' then Some ''User''
      else if r = Str ''assistant'' then Some ''Assistant''
      else None)"

text \<open>
  What one message adds to \<open>formattedText\<close>. Reading \<open>msg.role\<close> raises when the message is
  \<open>undefined\<close> or \<open>null\<close>; calling \<open>trim\<close> raises when \<open>contentText\<close> is truthy and not a
  string.
\<close>

definition format_message :: "jsval \<Rightarrow> thrown + string" where
  "format_message msg =
     (case read_prop msg ''role'' of
        Inl e \<Rightarrow> Inl e
      | Inr r \<Rightarrow>
          (let contentText = content_text (property msg ''content'')
           in case role_label r of
                None \<Rightarrow> Inr []
              | Some role \<Rightarrow>
                  if \<not> truthy contentText then Inr []
                  else (case contentText of
                          Str t \<Rightarrow>
                            if trim t \<noteq> [] then Inr (role @ '': '' @ trim t @ newline @ newline)
                            else Inr []
                        | _ \<Rightarrow> Inl TypeError)))"

fun format_each :: "jsval list \<Rightarrow> string \<Rightarrow> thrown + string" where
  "format_each [] formattedText = Inr formattedText"
| "format_each (msg # msgs) formattedText =
     (case format_message msg of
        Inl e \<Rightarrow> Inl e
      | Inr t \<Rightarrow> format_each msgs (formattedText @ t))"

definition format_conversation :: "jsval \<Rightarrow> thrown + string" where
  "format_conversation chatData =
     (case property chatData ''messages'' of
        Arr msgs \<Rightarrow> format_each msgs []
      | _ \<Rightarrow> Inr [])"

section \<open>Reading the store\<close>

text \<open>
  How the store behaves during one call: whether \<open>indexedDB.open\<close> fails (with the cause),
  whether the database has the object store \<open>keyval\<close> (\<open>db.transaction\<close> raises a
  \<open>NotFoundError\<close> otherwise), and whether \<open>getAll\<close> fails or which entries it yields.
\<close>

record keyval_store =
  open_error :: "string option"
  has_object_store :: bool
  getAll_outcome :: "string + jsval list"

datatype connection = NotOpened | Open | Closed

definition looks_like_chat :: "jsval \<Rightarrow> bool" where
  "looks_like_chat entry =
     (truthy entry \<and> typeof_object entry
      \<and> ((property entry ''chatTitle'' \<noteq> Undefined \<and> property entry ''messages'' \<noteq> Undefined)
         \<or> (truthy (property entry ''id'') \<and> truthy (property entry ''messages'')
            \<and> isArray (property entry ''messages''))))"

text \<open>
  \<open>getChatsFromIndexedDB\<close>: the state of the connection when the call is over, and the
  records returned or the error thrown (the \<open>catch\<close> block logs and rethrows).
\<close>

definition getChatsFromIndexedDB :: "keyval_store \<Rightarrow> connection \<times> (thrown + jsval list)" where
  "getChatsFromIndexedDB store =
     (case open_error store of
        Some cause \<Rightarrow> (NotOpened, Inl (Error (''Failed to open keyval-store database: '' @ cause)))
      | None \<Rightarrow>
          if \<not> has_object_store store then (Open, Inl (DOMException ''NotFoundError''))
          else (case getAll_outcome store of
                  Inl cause \<Rightarrow> (Open, Inl (Error (''Failed to get entries from store: '' @ cause)))
                | Inr allEntries \<Rightarrow> (Closed, Inr (filter looks_like_chat allEntries))))"

text \<open>
  The spec's wording of the filter, for comparison: an entry with a messages sequence, plus
  either a title-like field or an identifier field.
\<close>

definition resembles_conversation :: "jsval \<Rightarrow> bool" where
  "resembles_conversation entry =
     (isArray (property entry ''messages'')
      \<and> (property entry ''chatTitle'' \<noteq> Undefined \<or> property entry ''id'' \<noteq> Undefined))"

text \<open>
  The two kinds of entries of the storage-filtering property: a conversation entry is an
  object with a messages array and a title or a truthy identifier; an unrelated entry has
  no \<open>messages\<close> field.
\<close>

definition conversation_entry :: "jsval \<Rightarrow> bool" where
  "conversation_entry e =
     (case e of
        Obj kvs \<Rightarrow>
          isArray (property e ''messages'')
          \<and> (property e ''chatTitle'' \<noteq> Undefined \<or> truthy (property e ''id''))
      | _ \<Rightarrow> False)"

definition unrelated_entry :: "jsval \<Rightarrow> bool" where
  "unrelated_entry e = (property e ''messages'' = Undefined)"

definition sample_entries :: "jsval list" where
  "sample_entries =
     [Str ''a setting'',
      Obj [(''chatTitle'', Str ''Plan''),
           (''messages'', Arr [Obj [(''role'', Str ''user''), (''content'', Str ''Hi'')],
                               Obj [(''role'', Str ''assistant''), (''content'', Str ''Hello'')]])],
      Obj [(''theme'', Str ''dark'')],
      Obj [(''id'', Str ''c2''), (''messages'', Arr [])]]"

definition sample_messages :: "jsval list" where
  "sample_messages =
     [Obj [(''role'', Str ''user''), (''content'', Str ''Hi'')],
      Obj [(''role'', Str ''system''), (''content'', Str ''be brief'')],
      Obj [(''role'', Str ''assistant''),
           (''content'', Arr [Obj [(''type'', Str ''text''), (''text'', Str ''Hello'')],
                              Obj [(''type'', Str ''image'')]])],
      Obj [(''role'', Str ''user''), (''content'', Obj [(''text'', Str '' ok '')])]]"

section \<open>Sorting the retrieved conversations\<close>














section \<open>Writing into the input\<close>

datatype signal =
  CompositionStart | KeyDown | KeyPress | KeyUp | Input | CompositionEnd | Change

datatype operation =
  Dispatch signal | NativeSetter | DirectAssign | SetSelectionStart | SetSelectionEnd

text \<open>
  A text control: its value, its selection, whether it has the focus, the events
  dispatched on it so far, and the operations that raise when applied to it. What the
  host's listeners do on the events is outside the script and not modelled.
\<close>

record text_control =
  tvalue :: string
  selectionStart :: nat
  selectionEnd :: nat
  focused :: bool
  dispatched :: "signal list"
  raising :: "operation list"




text \<open>Setting the value of a text control: a changed value moves the cursor to the end.\<close>

definition set_value :: "string \<Rightarrow> text_control \<Rightarrow> text_control" where
  "set_value v c =
     (if v = tvalue c then c
      else c\<lparr>tvalue := v, selectionStart := length v, selectionEnd := length v\<rparr>)"

text \<open>
  Setting the selection range: both bounds clamped to the length of the value; an end not
  after the start collapses the selection at the end.
\<close>

definition set_selection_range :: "nat \<Rightarrow> nat \<Rightarrow> text_control \<Rightarrow> text_control" where
  "set_selection_range a b c =
     (let a' = min a (length (tvalue c)); b' = min b (length (tvalue c))
      in if b' \<le> a' then c\<lparr>selectionStart := b', selectionEnd := b'\<rparr>
         else c\<lparr>selectionStart := a', selectionEnd := b'\<rparr>)"








section \<open>A run that ends in cleanup\<close>

text \<open>
  The page loads without a toolbar; both start-up timers fire (at 2000 and 3000 ms); the
  host renders the toolbar and the observer is told; a route change follows at 3500 ms.
  Three timers are then pending: the settle timer of the start-up navigation check, the
  observer's debounce timer and the settle timer of the route change.
\<close>

definition toolbar_added :: mutation_record where
  "toolbar_added = \<lparr>mtype = ChildList, addedNodes = [ElementNode (toolbar [])], removedNodes = []\<rparr>"

definition before_cleanup :: world where
  "before_cleanup =
     last (run (loaded [])
       [TimerFires 1 2000, TimerFires 2 3000, HostMutation [toolbar []],
        ObserverBatch [toolbar_added], Navigation PushStateCall 3500])"

section \<open>Navigation rate limiting\<close>







section \<open>Queries and edits of the document\<close>


lemma count_id_Cons:
  "count_id i (e # es) =
     (if elem_id e = Some i then 1 else 0) + count_id i (children e) + count_id i es"
  by (cases e) simp

lemma querySelectorIn_Cons:
  "querySelectorIn P (e # es) =
     (if P e then Some [0]
      else case querySelectorIn P (children e) of
             Some p \<Rightarrow> Some (0 # p)
           | None \<Rightarrow> map_option shift (querySelectorIn P es))"
  by (cases e) simp

lemma querySelectorIn_nonempty: "querySelectorIn P es = Some p \<Longrightarrow> p \<noteq> []"
  by (induction P es arbitrary: p rule: querySelectorIn.induct)
     (auto split: if_splits option.splits elim!: shift.elims)

lemma shift_cases: "p \<noteq> [] \<Longrightarrow> \<exists>k q. p = k # q \<and> shift p = Suc k # q"
  by (cases p) auto

lemma element_at_query:
  "querySelectorIn P es = Some p \<Longrightarrow> \<exists>e. element_at p es = Some e \<and> P e"
proof (induction P es arbitrary: p rule: querySelectorIn.induct)
  case (1 P)
  then show ?case by simp
next
  case (2 P i m c ch es)
  show ?case
  proof (cases "P (Element i m c ch)")
    case True
    with 2 show ?thesis by auto
  next
    case False
    note nP = this
    show ?thesis
    proof (cases "querySelectorIn P ch")
      case (Some q)
      with 2 nP have p: "p = 0 # q" by simp
      from Some have "q \<noteq> []" by (rule querySelectorIn_nonempty)
      then obtain a q' where q: "q = a # q'" by (cases q) auto
      from 2(1)[OF nP Some] obtain e where "element_at q ch = Some e" "P e" by blast
      with p q show ?thesis by auto
    next
      case None
      with 2 nP obtain r where r: "querySelectorIn P es = Some r" "p = shift r" by auto
      from r(1) have "r \<noteq> []" by (rule querySelectorIn_nonempty)
      then obtain k q where kq: "r = k # q" by (cases r) auto
      from 2(2)[OF nP None r(1)] obtain e where "element_at r es = Some e" "P e" by blast
      with r kq show ?thesis by auto
    qed
  qed
qed

lemma query_None_count:
  "(querySelectorIn (\<lambda>e. elem_id e = Some i) es = None) = (count_id i es = 0)"
  by (induction i es rule: count_id.induct) (auto split: option.splits)

lemma count_remove_query:
  "querySelectorIn (\<lambda>e. elem_id e = Some i) es = Some p \<Longrightarrow>
   count_id i (remove_at p es) < count_id i es"
proof (induction i es arbitrary: p rule: count_id.induct)
  case (1 i)
  then show ?case by simp
next
  case (2 i a m c ch es)
  show ?case
  proof (cases "a = Some i")
    case True
    with 2(3) have "p = [0]" by simp
    with True show ?thesis by simp
  next
    case False
    note nP = this
    show ?thesis
    proof (cases "querySelectorIn (\<lambda>e. elem_id e = Some i) ch")
      case (Some q)
      with 2 nP have p: "p = 0 # q" by simp
      from Some have "q \<noteq> []" by (rule querySelectorIn_nonempty)
      then obtain b q' where q: "q = b # q'" by (cases q) auto
      from 2(1)[OF Some] have "count_id i (remove_at q ch) < count_id i ch" .
      with p q nP show ?thesis by simp
    next
      case None
      with 2 nP obtain r where r: "querySelectorIn (\<lambda>e. elem_id e = Some i) es = Some r" "p = shift r" by auto
      from r(1) have "r \<noteq> []" by (rule querySelectorIn_nonempty)
      then obtain k q where kq: "r = k # q" by (cases r) auto
      from 2(2)[OF r(1)] have "count_id i (remove_at r es) < count_id i es" .
      with r kq nP show ?thesis by simp
    qed
  qed
qed

lemma count_prepend:
  "element_at p es = Some e \<Longrightarrow>
   count_id i (prepend_at p x es) = count_id i es + count_id i [x]"
  by (induction p x es arbitrary: e rule: prepend_at.induct) (auto simp: count_id_Cons)

lemma element_at_append:
  "element_at p es = Some e \<Longrightarrow> q \<noteq> [] \<Longrightarrow> element_at (p @ q) es = element_at q (children e)"
proof (induction p es arbitrary: e rule: element_at.induct)
  case (3 e' es)
  then show ?case by (cases q; cases e') auto
qed auto

lemma remove_prepend:
  "element_at p es = Some e \<Longrightarrow> remove_at (p @ [0]) (prepend_at p x es) = es"
  by (induction p x es arbitrary: e rule: prepend_at.induct) auto

lemma query_prepend:
  "count_id i es = 0 \<Longrightarrow> element_at p es = Some e \<Longrightarrow> elem_id x = Some i \<Longrightarrow>
   querySelectorIn (\<lambda>e. elem_id e = Some i) (prepend_at p x es) = Some (p @ [0])"
proof (induction p x es arbitrary: e rule: prepend_at.induct)
  case (3 x a m c ch es)
  then show ?case by (auto split: if_splits simp: querySelectorIn_Cons)
next
  case (4 v va x a m c ch es)
  then show ?case by (auto split: if_splits)
next
  case (5 k p x e' es)
  from 5(2) have z: "elem_id e' \<noteq> Some i" "count_id i (children e') = 0" "count_id i es = 0"
    by (auto simp: count_id_Cons split: if_splits)
  from 5(3) have "element_at (k # p) es = Some e" by simp
  from 5(1)[OF z(3) this 5(4)]
  have "querySelectorIn (\<lambda>e. elem_id e = Some i) (prepend_at (k # p) x es) = Some ((k # p) @ [0])" .
  moreover from z(2) have "querySelectorIn (\<lambda>e. elem_id e = Some i) (children e') = None"
    by (simp add: query_None_count)
  ultimately show ?case using z(1) by (simp add: querySelectorIn_Cons)
qed auto

lemma element_at_prepend:
  "element_at p es = Some e \<Longrightarrow>
   element_at p (prepend_at p x es) = Some (Element (elem_id e) (data_element_id e) (classList e) (x # children e))
   \<and> element_at (p @ [0]) (prepend_at p x es) = Some x"
  by (induction p x es arbitrary: e rule: prepend_at.induct) auto


section \<open>Reconciliation\<close>

lemma addReferenceButton_alt:
  "addReferenceButton w =
     (case locateAnchor (without_existing (doc w)) of
        None \<Rightarrow> (w\<lparr>doc := without_existing (doc w)\<rparr>, False)
      | Some leftSide \<Rightarrow>
          (w\<lparr>doc := prepend_at leftSide refButtonContainer (without_existing (doc w)),
             buttonAdded := True\<rparr>, True))"
  by (simp add: addReferenceButton_def locateAnchor_def without_existing_def Let_def
           split: option.splits)


lemma count_without_existing:
  "count_controls (without_existing d) \<le> count_controls d - 1"
proof (cases "getElementById CONTROL_ID d")
  case None
  then have "count_controls d = 0"
    by (simp add: getElementById_def count_controls_def query_None_count)
  with None show ?thesis by (simp add: without_existing_def)
next
  case (Some h)
  then have "count_controls (remove_at h d) < count_controls d"
    unfolding getElementById_def count_controls_def by (rule count_remove_query)
  with Some show ?thesis by (simp add: without_existing_def)
qed

lemma without_existing_none:
  assumes "count_controls d = 0"
  shows "without_existing d = d"
proof -
  from assms have "getElementById CONTROL_ID d = None"
    unfolding getElementById_def count_controls_def by (simp only: query_None_count)
  then show ?thesis by (simp add: without_existing_def)
qed

lemma count_refButtonContainer: "count_id CONTROL_ID [refButtonContainer] = 1"
  by (simp add: refButtonContainer_def referenceChatButton_def svgIcon_def svgPath_def
      CONTROL_ID_def)

lemma locateAnchor_Some:
  assumes "locateAnchor d = Some leftSide"
  shows "\<exists>actionBar rel bar e.
           findChatActionBar d = Some actionBar \<and> leftSide = actionBar @ rel \<and> rel \<noteq> []
           \<and> element_at actionBar d = Some bar \<and> is_action_bar bar
           \<and> element_at leftSide d = Some e \<and> is_left_side e"
proof -
  from assms obtain actionBar where ab: "findChatActionBar d = Some actionBar"
    and q: "querySelectorOf actionBar is_left_side d = Some leftSide"
    by (auto simp: locateAnchor_def split: option.splits)
  from ab obtain bar where bar: "element_at actionBar d = Some bar" "is_action_bar bar"
    unfolding findChatActionBar_def by (blast dest: element_at_query)
  from q bar obtain rel where rel: "querySelectorIn is_left_side (children bar) = Some rel"
    "leftSide = actionBar @ rel"
    by (auto simp: querySelectorOf_def)
  from rel(1) have ne: "rel \<noteq> []" by (rule querySelectorIn_nonempty)
  from rel(1) obtain e where e: "element_at rel (children bar) = Some e" "is_left_side e"
    by (blast dest: element_at_query)
  from bar(1) ne have "element_at (actionBar @ rel) d = element_at rel (children bar)"
    by (rule element_at_append)
  with ab rel ne bar e show ?thesis by auto
qed


text \<open>
  Claim C2 (amended). Let the document hold at most one element with the control's
  identifier before \<open>addReferenceButton\<close> is called, and let the two structural lookups be
  made, as the function makes them, on the document without that element. If they find no
  anchor, the document holds no control after the call and the call returns false. If they
  find the left-aligned cluster \<open>leftSide\<close>, below the toolbar, the document holds exactly
  one control after the call, it is the first child of \<open>leftSide\<close>, and the call returns
  true.
\<close>

theorem reconcile_postcondition:
  assumes "count_controls (doc w) \<le> 1"
  shows "(locateAnchor (without_existing (doc w)) = None \<longrightarrow>
            count_controls (doc (fst (addReferenceButton w))) = 0
            \<and> snd (addReferenceButton w) = False)
       \<and> (\<forall>leftSide. locateAnchor (without_existing (doc w)) = Some leftSide \<longrightarrow>
            count_controls (doc (fst (addReferenceButton w))) = 1
            \<and> getElementById CONTROL_ID (doc (fst (addReferenceButton w))) = Some (leftSide @ [0])
            \<and> element_at (leftSide @ [0]) (doc (fst (addReferenceButton w))) = Some refButtonContainer
            \<and> (\<exists>e. element_at leftSide (doc (fst (addReferenceButton w))) = Some e \<and> is_left_side e)
            \<and> (\<exists>actionBar rel. findChatActionBar (without_existing (doc w)) = Some actionBar
                  \<and> leftSide = actionBar @ rel \<and> rel \<noteq> [])
            \<and> snd (addReferenceButton w) = True)"
proof -
  let ?d1 = "without_existing (doc w)"
  from assms count_without_existing [of "doc w"] have z: "count_controls ?d1 = 0" by simp
  have a: "count_controls (doc (fst (addReferenceButton w))) = 0
            \<and> snd (addReferenceButton w) = False" if "locateAnchor ?d1 = None"
    using that z by (simp add: addReferenceButton_alt)
  have b: "count_controls (doc (fst (addReferenceButton w))) = 1
            \<and> getElementById CONTROL_ID (doc (fst (addReferenceButton w))) = Some (leftSide @ [0])
            \<and> element_at (leftSide @ [0]) (doc (fst (addReferenceButton w))) = Some refButtonContainer
            \<and> (\<exists>e. element_at leftSide (doc (fst (addReferenceButton w))) = Some e \<and> is_left_side e)
            \<and> (\<exists>actionBar rel. findChatActionBar ?d1 = Some actionBar
                  \<and> leftSide = actionBar @ rel \<and> rel \<noteq> [])
            \<and> snd (addReferenceButton w) = True"
    if l: "locateAnchor ?d1 = Some leftSide" for leftSide
  proof -
    from locateAnchor_Some [OF l] obtain actionBar rel e where
      ab: "findChatActionBar ?d1 = Some actionBar" "leftSide = actionBar @ rel" "rel \<noteq> []"
      and e: "element_at leftSide ?d1 = Some e" "is_left_side e" by blast
    have d2: "doc (fst (addReferenceButton w)) = prepend_at leftSide refButtonContainer ?d1"
      and r: "snd (addReferenceButton w) = True"
      using l by (simp_all add: addReferenceButton_alt)
    have c: "count_controls (prepend_at leftSide refButtonContainer ?d1) = 1"
      using e(1) z by (simp add: count_controls_def count_prepend count_refButtonContainer)
    have g: "getElementById CONTROL_ID (prepend_at leftSide refButtonContainer ?d1) = Some (leftSide @ [0])"
      unfolding getElementById_def
      using z e(1) by (intro query_prepend) (simp_all add: count_controls_def refButtonContainer_def)
    from element_at_prepend [OF e(1), of refButtonContainer]
    have at: "element_at (leftSide @ [0]) (prepend_at leftSide refButtonContainer ?d1) = Some refButtonContainer"
      and el: "\<exists>e'. element_at leftSide (prepend_at leftSide refButtonContainer ?d1) = Some e' \<and> is_left_side e'"
      using e(2) by (auto simp: is_left_side_def)
    from d2 r c g at el ab show ?thesis by auto
  qed
  from a b show ?thesis by blast
qed

theorem reconcile_postcondition_witness:
  "count_controls (doc (loaded [toolbar []])) \<le> 1
   \<and> locateAnchor (without_existing (doc (loaded [toolbar []]))) = Some [0, 0]
   \<and> count_controls (doc (fst (addReferenceButton (loaded [toolbar []])))) = 1
   \<and> element_at [0, 0, 0] (doc (fst (addReferenceButton (loaded [toolbar []]))))
       = Some refButtonContainer
   \<and> snd (addReferenceButton (loaded [toolbar []])) = True
   \<and> count_controls (doc (loaded [])) \<le> 1
   \<and> locateAnchor (without_existing (doc (loaded []))) = None
   \<and> count_controls (doc (fst (addReferenceButton (loaded [])))) = 0
   \<and> snd (addReferenceButton (loaded [])) = False"
proof -
  have h1: "count_controls (doc (loaded [toolbar []])) \<le> 1"
    by (simp add: loaded_def toolbar_def count_controls_def)
  have l1: "locateAnchor (without_existing (doc (loaded [toolbar []]))) = Some [0, 0]"
    by (simp add: loaded_def toolbar_def without_existing_def getElementById_def
        locateAnchor_def findChatActionBar_def querySelectorOf_def is_action_bar_def
        is_left_side_def ACTIONS_MARKER_def)
  have h2: "count_controls (doc (loaded [])) \<le> 1"
    by (simp add: loaded_def count_controls_def)
  have l2: "locateAnchor (without_existing (doc (loaded []))) = None"
    by (simp add: loaded_def without_existing_def getElementById_def
        locateAnchor_def findChatActionBar_def)
  from reconcile_postcondition [OF h1] l1 reconcile_postcondition [OF h2] l2 h1 h2
  show ?thesis by simp
qed

text \<open>
  With two elements carrying the identifier and no toolbar, the lookups find no anchor and
  one of the two elements is still in the document after the call. With the toolbar inside
  the element that carries the identifier, the lookups find an anchor before the call, and
  the call removes it with the element and returns false.
\<close>

theorem reconcile_postcondition_counterexample:
  "locateAnchor [refButtonContainer, refButtonContainer] = None
   \<and> locateAnchor (without_existing [refButtonContainer, refButtonContainer]) = None
   \<and> count_controls
        (doc (fst (addReferenceButton (loaded [refButtonContainer, refButtonContainer])))) = 1
   \<and> locateAnchor [Element (Some CONTROL_ID) None [] [toolbar []]] = Some [0, 0, 0]
   \<and> addReferenceButton (loaded [Element (Some CONTROL_ID) None [] [toolbar []]])
       = (loaded [], False)"
  by (simp add: addReferenceButton_def loaded_def getElementById_def locateAnchor_def
      without_existing_def findChatActionBar_def querySelectorOf_def is_action_bar_def
      is_left_side_def refButtonContainer_def referenceChatButton_def svgIcon_def svgPath_def
      CONTROL_ID_def ACTIONS_MARKER_def count_controls_def toolbar_def Let_def)

text \<open>
  Claim C3 (amended). From every state whose document holds at most one element with the
  control's identifier, calling \<open>addReferenceButton\<close> a second time right after the first
  leaves the state that the first call produced and returns the same value.
\<close>

theorem reconcile_idempotent:
  assumes "count_controls (doc w) \<le> 1"
  shows "addReferenceButton (fst (addReferenceButton w)) = addReferenceButton w"
proof -
  let ?d1 = "without_existing (doc w)"
  from assms count_without_existing [of "doc w"] have z: "count_controls ?d1 = 0" by simp
  show ?thesis
  proof (cases "locateAnchor ?d1")
    case None
    then have 1: "addReferenceButton w = (w\<lparr>doc := ?d1\<rparr>, False)"
      by (simp add: addReferenceButton_alt)
    have "addReferenceButton (w\<lparr>doc := ?d1\<rparr>) = (w\<lparr>doc := ?d1\<rparr>, False)"
      using None z by (simp add: addReferenceButton_alt without_existing_none)
    with 1 show ?thesis by simp
  next
    case (Some leftSide)
    let ?d2 = "prepend_at leftSide refButtonContainer ?d1"
    let ?w1 = "w\<lparr>doc := ?d2, buttonAdded := True\<rparr>"
    from Some have 1: "addReferenceButton w = (?w1, True)"
      by (simp add: addReferenceButton_alt)
    from locateAnchor_Some [OF Some] obtain e where e: "element_at leftSide ?d1 = Some e" by blast
    have g: "getElementById CONTROL_ID ?d2 = Some (leftSide @ [0])"
      unfolding getElementById_def
      using z e by (intro query_prepend) (simp_all add: count_controls_def refButtonContainer_def)
    have "without_existing ?d2 = ?d1"
      using g remove_prepend [OF e] by (simp add: without_existing_def)
    then have "addReferenceButton ?w1 = (?w1, True)"
      using Some by (simp add: addReferenceButton_alt)
    with 1 show ?thesis by simp
  qed
qed

theorem reconcile_idempotent_witness:
  "count_controls (doc (loaded [toolbar []])) \<le> 1
   \<and> addReferenceButton (fst (addReferenceButton (loaded [toolbar []])))
       = addReferenceButton (loaded [toolbar []])
   \<and> snd (addReferenceButton (loaded [toolbar []])) = True"
proof -
  have h: "count_controls (doc (loaded [toolbar []])) \<le> 1"
    by (simp add: loaded_def toolbar_def count_controls_def)
  have r: "snd (addReferenceButton (loaded [toolbar []])) = True"
    by (simp add: addReferenceButton_def loaded_def toolbar_def getElementById_def
        findChatActionBar_def querySelectorOf_def is_action_bar_def is_left_side_def
        ACTIONS_MARKER_def Let_def)
  from reconcile_idempotent [OF h] h r show ?thesis by simp
qed

text \<open>
  With two elements carrying the identifier, the first call removes one and the second
  call removes the other: the two final documents differ.
\<close>

theorem reconcile_idempotent_counterexample:
  "addReferenceButton (fst (addReferenceButton (loaded [refButtonContainer, refButtonContainer])))
   \<noteq> addReferenceButton (loaded [refButtonContainer, refButtonContainer])"
  by (simp add: addReferenceButton_def loaded_def getElementById_def
      findChatActionBar_def querySelectorOf_def is_action_bar_def is_left_side_def
      refButtonContainer_def referenceChatButton_def svgIcon_def svgPath_def
      CONTROL_ID_def ACTIONS_MARKER_def Let_def)

section \<open>At most one control along every run\<close>


lemma doc_clearTimeout: "doc (clearTimeout t w) = doc w"
  by (simp add: clearTimeout_def split: option.splits)













lemmas eval_defs =
  step_def fire_def run_callback_def navigate_def handleNavigation_def setTimeout_def
  clearTimeout_def setupObserver_def cleanup_def addReferenceButton_def
  removeReferenceButton_def loaded_def toolbar_def getElementById_def findChatActionBar_def
  querySelectorOf_def is_action_bar_def is_left_side_def refButtonContainer_def
  referenceChatButton_def svgIcon_def svgPath_def CONTROL_ID_def ACTIONS_MARKER_def
  count_controls_def Let_def




section \<open>Newest first\<close>











section \<open>The storage reader\<close>

text \<open>
  Claim C7, on a store that opens and whose enumeration then fails: the call fails with the
  error of the failed read, and the connection is still open when it returns. The
  connection also stays open when the object store is missing. A store that does not open
  fails with the error of the failed open; a successful read closes the connection.
\<close>

theorem connection_left_open_on_read_failure:
  "getChatsFromIndexedDB
     \<lparr>open_error = None, has_object_store = True, getAll_outcome = Inl ''AbortError''\<rparr>
   = (Open, Inl (Error ''Failed to get entries from store: AbortError''))
  \<and> getChatsFromIndexedDB
     \<lparr>open_error = None, has_object_store = False, getAll_outcome = Inr []\<rparr>
   = (Open, Inl (DOMException ''NotFoundError''))
  \<and> getChatsFromIndexedDB
     \<lparr>open_error = Some ''UnknownError'', has_object_store = True, getAll_outcome = Inr []\<rparr>
   = (NotOpened, Inl (Error ''Failed to open keyval-store database: UnknownError''))
  \<and> getChatsFromIndexedDB
     \<lparr>open_error = None, has_object_store = True, getAll_outcome = Inr []\<rparr>
   = (Closed, Inr [])"
  by (simp add: getChatsFromIndexedDB_def)

lemma conversation_entry_looks: "conversation_entry e \<Longrightarrow> looks_like_chat e"
  by (cases e; cases "property e ''messages''")
     (auto simp: conversation_entry_def looks_like_chat_def)

lemma unrelated_entry_looks: "unrelated_entry e \<Longrightarrow> \<not> looks_like_chat e \<and> \<not> conversation_entry e"
  by (cases e) (auto simp: conversation_entry_def looks_like_chat_def unrelated_entry_def)

lemma filter_cong_set: "(\<forall>x \<in> set xs. P x = Q x) \<Longrightarrow> filter P xs = filter Q xs"
  by (induction xs) auto

text \<open>
  Claim C6 (amended). On a store that opens and enumerates, the call returns the entries
  that pass the filter of the code, in the order of the enumeration and unchanged, and
  closes the connection: the truthy objects with both \<open>chatTitle\<close> and \<open>messages\<close>
  defined, or with a truthy \<open>id\<close> and a \<open>messages\<close> array. For a store of N conversation
  entries and M unrelated entries it returns exactly the N conversation entries.
\<close>

theorem listConversations_filter:
  assumes "open_error store = None" and "has_object_store store"
    and "getAll_outcome store = Inr entries"
  shows "getChatsFromIndexedDB store = (Closed, Inr (filter looks_like_chat entries))
       \<and> ((\<forall>e \<in> set entries. conversation_entry e \<or> unrelated_entry e) \<longrightarrow>
            getChatsFromIndexedDB store = (Closed, Inr (filter conversation_entry entries))
            \<and> length (filter conversation_entry entries) + length (filter unrelated_entry entries)
                = length entries)"
proof -
  have a: "getChatsFromIndexedDB store = (Closed, Inr (filter looks_like_chat entries))"
    using assms by (simp add: getChatsFromIndexedDB_def)
  have b: "filter looks_like_chat entries = filter conversation_entry entries
           \<and> length (filter conversation_entry entries) + length (filter unrelated_entry entries)
                = length entries"
    if h: "\<forall>e \<in> set entries. conversation_entry e \<or> unrelated_entry e"
  proof -
    from h have "\<forall>e \<in> set entries. looks_like_chat e = conversation_entry e"
      using conversation_entry_looks unrelated_entry_looks by blast
    then have 1: "filter looks_like_chat entries = filter conversation_entry entries"
      by (rule filter_cong_set)
    from h have "\<forall>e \<in> set entries. unrelated_entry e = (\<not> conversation_entry e)"
      using unrelated_entry_looks by blast
    then have "filter unrelated_entry entries = filter (\<lambda>e. \<not> conversation_entry e) entries"
      by (rule filter_cong_set)
    then have 2: "length (filter conversation_entry entries) + length (filter unrelated_entry entries)
                = length entries"
      using sum_length_filter_compl [of conversation_entry entries] by simp
    from 1 2 show ?thesis by simp
  qed
  from a b show ?thesis by auto
qed

theorem listConversations_filter_witness:
  "getChatsFromIndexedDB
     \<lparr>open_error = None, has_object_store = True, getAll_outcome = Inr sample_entries\<rparr>
   = (Closed, Inr [sample_entries ! 1, sample_entries ! 3])
   \<and> list_all (\<lambda>e. conversation_entry e \<or> unrelated_entry e) sample_entries
   \<and> filter conversation_entry sample_entries = [sample_entries ! 1, sample_entries ! 3]"
proof -
  let ?s = "\<lparr>open_error = None, has_object_store = True, getAll_outcome = Inr sample_entries\<rparr>"
  have h: "\<forall>e \<in> set sample_entries. conversation_entry e \<or> unrelated_entry e"
    by (simp add: sample_entries_def conversation_entry_def unrelated_entry_def)
  have f: "filter conversation_entry sample_entries = [sample_entries ! 1, sample_entries ! 3]"
    by (simp add: sample_entries_def conversation_entry_def)
  have p: "open_error ?s = None" "has_object_store ?s" "getAll_outcome ?s = Inr sample_entries"
    by simp_all
  from listConversations_filter [OF p] h
  have "getChatsFromIndexedDB ?s = (Closed, Inr (filter conversation_entry sample_entries))"
    by blast
  with f have "getChatsFromIndexedDB ?s = (Closed, Inr [sample_entries ! 1, sample_entries ! 3])"
    by (simp only:)
  with h f show ?thesis by (simp only: list_all_iff simp_thms)
qed

text \<open>
  An entry with a title whose \<open>messages\<close> is the number 5 has no messages sequence and is
  returned; an entry with a messages sequence and the identifier 0 is left out.
\<close>

theorem listConversations_filter_counterexample:
  "\<not> resembles_conversation (Obj [(''chatTitle'', Str ''T''), (''messages'', Num 5)])
   \<and> getChatsFromIndexedDB
       \<lparr>open_error = None, has_object_store = True,
        getAll_outcome = Inr [Obj [(''chatTitle'', Str ''T''), (''messages'', Num 5)]]\<rparr>
     = (Closed, Inr [Obj [(''chatTitle'', Str ''T''), (''messages'', Num 5)]])
   \<and> resembles_conversation (Obj [(''id'', Num 0), (''messages'', Arr [])])
   \<and> getChatsFromIndexedDB
       \<lparr>open_error = None, has_object_store = True,
        getAll_outcome = Inr [Obj [(''id'', Num 0), (''messages'', Arr [])]]\<rparr>
     = (Closed, Inr [])"
  by (simp add: resembles_conversation_def getChatsFromIndexedDB_def looks_like_chat_def)


section \<open>The message normalizer\<close>








lemma format_sample_messages:
  "format_each sample_messages [] =
     Inr (''User: Hi'' @ newline @ newline @ ''Assistant: Hello'' @ newline @ newline
          @ ''User: ok'' @ newline @ newline)"
  by (simp add: sample_messages_def format_message_def read_prop_def role_label_def
      content_text_def text_bearing_def array_join_def trim_def is_space_def newline_def Let_def)

text \<open>The stored record of the end-to-end example: two lines, each followed by an empty line.\<close>

lemma format_conversation_sample:
  "format_conversation (sample_entries ! 1) =
     Inr (''User: Hi'' @ newline @ newline @ ''Assistant: Hello'' @ newline @ newline)"
  by (simp add: sample_entries_def format_conversation_def format_message_def read_prop_def
      role_label_def content_text_def trim_def is_space_def newline_def Let_def)


section \<open>The input writer\<close>

lemma raising_set_value [simp]: "raising (set_value v c) = raising c"
  by (simp add: set_value_def)

lemma raising_set_selection_range [simp]: "raising (set_selection_range a b c) = raising c"
  by (simp add: set_selection_range_def Let_def)

lemma dispatched_set_value [simp]: "dispatched (set_value v c) = dispatched c"
  by (simp add: set_value_def)

lemma dispatched_set_selection_range [simp]: "dispatched (set_selection_range a b c) = dispatched c"
  by (simp add: set_selection_range_def Let_def)

lemma tvalue_set_value [simp]: "tvalue (set_value v c) = v"
  by (simp add: set_value_def)

lemma tvalue_set_selection_range [simp]: "tvalue (set_selection_range a b c) = tvalue c"
  by (simp add: set_selection_range_def Let_def)








section \<open>Cleanup\<close>

text \<open>
  Claim C9, on the run above. After \<open>cleanup\<close> the observer is disconnected, the two history
  entry points are the original ones and the observer's debounce timer is cleared, but the
  two navigation settle timers are still pending; when the later one fires, it puts the
  control into the document.
\<close>

theorem cleanup_leaves_navigation_timer:
  "timers before_cleanup = [(3, 1500, NavSettle), (4, 500, DebounceAdd), (5, 1500, NavSettle)]
   \<and> observing (cleanup before_cleanup) = False
   \<and> pushState (cleanup before_cleanup) = Original
   \<and> replaceState (cleanup before_cleanup) = Original
   \<and> timers (cleanup before_cleanup) = [(3, 1500, NavSettle), (5, 1500, NavSettle)]
   \<and> count_controls (doc (cleanup before_cleanup)) = 0
   \<and> count_controls (doc (step (TimerFires 5 5000) (cleanup before_cleanup))) = 1"
  by (simp add: before_cleanup_def toolbar_added_def eval_defs observer_callback_def
      schedule_debounce_def mentions_action_bar_def)

end
